theory Spec2Isabelle
  imports Main "HOL-Library.AList" "HOL-Library.Word"
begin

section \<open>The in-memory datastore (MemoryDatastore)\<close>

text \<open>
  A shallow embedding of the class \<^verbatim>\<open>MemoryDatastore\<close>. Every method of the class is
  \<^verbatim>\<open>async\<close>: its model takes the datastore and returns the value the promise settles
  with (\<open>Inr\<close> a result, \<open>Inl\<close> the error it rejects with) together with the datastore
  the call leaves behind.

  The two fields \<^verbatim>\<open>docMetas\<close> and \<^verbatim>\<open>files\<close> are JavaScript objects, created by
  \<^verbatim>\<open>{}\<close> and used as dictionaries. Such an object has its own properties and
  inherits those of \<^verbatim>\<open>Object.prototype\<close>: the operator \<^verbatim>\<open>in\<close> and a property read
  see both, an assignment to \<^verbatim>\<open>__proto__\<close> runs the inherited setter instead of
  creating a property, and \<^verbatim>\<open>Object.keys\<close> lists the own properties only.
\<close>

subsection \<open>Run-time values\<close>

datatype jsval =
    JUndefined
  | JNull
  | JBool bool
  | JNum int
  | JStr string
  | JObj "(string \<times> jsval) list"

text \<open>The \<^verbatim>\<open>typeof\<close> operator.\<close>

fun typeof :: "jsval \<Rightarrow> string" where
  "typeof JUndefined = ''undefined''"
| "typeof JNull = ''object''"
| "typeof (JBool b) = ''boolean''"
| "typeof (JNum n) = ''number''"
| "typeof (JStr s) = ''string''"
| "typeof (JObj ps) = ''object''"

text \<open>
  A value of type \<^verbatim>\<open>string | undefined\<close> is a \<open>string option\<close>, \<open>None\<close> being
  \<^verbatim>\<open>undefined\<close>. String concatenation and template literals convert it to a string.
\<close>

fun toStr :: "string option \<Rightarrow> string" where
  "toStr None = ''undefined''"
| "toStr (Some s) = s"

subsection \<open>Objects used as dictionaries\<close>

text \<open>
  The prototype of an object: \<^verbatim>\<open>Object.prototype\<close> for an object created by
  \<^verbatim>\<open>{}\<close>; after an assignment of \<^verbatim>\<open>null\<close> or of an object to \<^verbatim>\<open>__proto__\<close>,
  none, or that object (a plain object, given by its own properties, whose prototype
  is \<^verbatim>\<open>Object.prototype\<close>).
\<close>

datatype prototype = ObjectPrototype | NullPrototype | PlainPrototype "(string \<times> jsval) list"

record jsobject =
  own :: "(string \<times> jsval) list"
  proto :: prototype

text \<open>The names of the properties of \<^verbatim>\<open>Object.prototype\<close>.\<close>

definition objectPrototypeNames :: "string list" where
  "objectPrototypeNames =
     [''constructor'', ''__defineGetter__'', ''__defineSetter__'', ''hasOwnProperty'',
      ''__lookupGetter__'', ''__lookupSetter__'', ''isPrototypeOf'', ''propertyIsEnumerable'',
      ''toString'', ''valueOf'', ''__proto__'', ''toLocaleString'']"

text \<open>
  What a property read returns: a data value, one of the functions of
  \<^verbatim>\<open>Object.prototype\<close> (by its property name), or the object \<^verbatim>\<open>Object.prototype\<close>
  itself.
\<close>

datatype propval = Data jsval | BuiltinFunction string | ObjectPrototypeValue

text \<open>
  A read that reaches \<^verbatim>\<open>Object.prototype\<close>: \<^verbatim>\<open>__proto__\<close> is an accessor whose
  getter returns the prototype of the object read from, the other names are functions.
\<close>

definition objectPrototypeProp :: "string \<Rightarrow> propval \<Rightarrow> propval" where
  "objectPrototypeProp k protoOfReceiver =
     (if k = ''__proto__'' then protoOfReceiver
      else if k \<in> set objectPrototypeNames then BuiltinFunction k
      else Data JUndefined)"

fun inheritedProp :: "string \<Rightarrow> prototype \<Rightarrow> propval" where
  "inheritedProp k ObjectPrototype = objectPrototypeProp k ObjectPrototypeValue"
| "inheritedProp k NullPrototype = Data JUndefined"
| "inheritedProp k (PlainPrototype ps) =
     (case map_of ps k of
        Some v \<Rightarrow> Data v
      | None \<Rightarrow> objectPrototypeProp k (Data (JObj ps)))"

text \<open>Reading a property: \<^verbatim>\<open>obj[key]\<close>.\<close>

definition getProp :: "jsobject \<Rightarrow> string \<Rightarrow> propval" where
  "getProp obj k =
     (case map_of (own obj) k of
        Some v \<Rightarrow> Data v
      | None \<Rightarrow> inheritedProp k (proto obj))"

text \<open>The \<^verbatim>\<open>in\<close> operator: an own or an inherited property.\<close>

fun inheritedHas :: "string \<Rightarrow> prototype \<Rightarrow> bool" where
  "inheritedHas k ObjectPrototype = (k \<in> set objectPrototypeNames)"
| "inheritedHas k NullPrototype = False"
| "inheritedHas k (PlainPrototype ps) =
     (k \<in> set (map fst ps) \<or> k \<in> set objectPrototypeNames)"

definition hasProp :: "string \<Rightarrow> jsobject \<Rightarrow> bool" where
  "hasProp k obj = (k \<in> set (map fst (own obj)) \<or> inheritedHas k (proto obj))"

text \<open>
  The assignment \<^verbatim>\<open>obj[key] = value\<close>. It creates or overwrites an own property,
  except when the key is \<^verbatim>\<open>__proto__\<close> and the accessor of \<^verbatim>\<open>Object.prototype\<close> is
  what the key resolves to: then the setter runs, which replaces the prototype when
  the value is an object or \<^verbatim>\<open>null\<close> and does nothing for any other value.
\<close>

fun reachesProtoAccessor :: "prototype \<Rightarrow> bool" where
  "reachesProtoAccessor ObjectPrototype = True"
| "reachesProtoAccessor NullPrototype = False"
| "reachesProtoAccessor (PlainPrototype ps) = (map_of ps ''__proto__'' = None)"

fun protoSetter :: "jsval \<Rightarrow> jsobject \<Rightarrow> jsobject" where
  "protoSetter JNull obj = obj\<lparr>proto := NullPrototype\<rparr>"
| "protoSetter (JObj ps) obj = obj\<lparr>proto := PlainPrototype ps\<rparr>"
| "protoSetter v obj = obj"

definition setProp :: "string \<Rightarrow> jsval \<Rightarrow> jsobject \<Rightarrow> jsobject" where
  "setProp k v obj =
     (if k = ''__proto__'' \<and> map_of (own obj) k = None \<and> reachesProtoAccessor (proto obj)
      then protoSetter v obj
      else obj\<lparr>own := AList.update k v (own obj)\<rparr>)"

text \<open>
  \<^verbatim>\<open>Object.keys\<close>: the own keys that are array indices (a decimal numeral without a
  leading zero, below \<open>2\<^sup>3\<^sup>2 - 1\<close>) in ascending numeric order, then the other keys in
  the order of their creation.
\<close>

definition isDigit :: "char \<Rightarrow> bool" where
  "isDigit c = (48 \<le> (of_char c :: nat) \<and> (of_char c :: nat) \<le> 57)"

definition digitsValue :: "string \<Rightarrow> nat" where
  "digitsValue s = foldl (\<lambda>n c. 10 * n + (of_char c - 48)) 0 s"

definition isArrayIndex :: "string \<Rightarrow> bool" where
  "isArrayIndex s =
     (case s of
        [] \<Rightarrow> False
      | c # cs \<Rightarrow>
          list_all isDigit s \<and> (if c = CHR ''0'' then cs = [] else True)
          \<and> digitsValue s < 4294967295)"

definition ownKeys :: "(string \<times> 'v) list \<Rightarrow> string list" where
  "ownKeys ps =
     sort_key digitsValue (filter isArrayIndex (map fst ps))
     @ filter (\<lambda>k. \<not> isArrayIndex k) (map fst ps)"

subsection \<open>Errors\<close>

text \<open>
  \<open>TypeError\<close> is the JavaScript error of reading a property of \<^verbatim>\<open>undefined\<close>,
  \<open>IOError\<close> a failed read of a file handle. \<open>TypeMismatchError\<close> and
  \<open>InvalidKeyError\<close> are the names of the specification's taxonomy.
\<close>

datatype error = TypeMismatchError | InvalidKeyError | TypeError | IOError

subsection \<open>Collaborators that the datastore imports\<close>

text \<open>
  Modelled from the spec: \<^verbatim>\<open>Preconditions.assertTypeOf\<close> (../Preconditions) is not
  part of the sources. The specification says of the payload of a write that it is
  "required to be a string; violating this fails with TypeMismatchError".
\<close>

definition assertTypeOf :: "jsval \<Rightarrow> string \<Rightarrow> string \<Rightarrow> error + jsval" where
  "assertTypeOf v ty nm = (if typeof v = ty then Inr v else Inl TypeMismatchError)"

text \<open>
  Modelled from the spec: \<^verbatim>\<open>Optional\<close> (../util/ts/Optional) is not part of the
  sources. An optional is empty or holds a value: \<^verbatim>\<open>Optional.of\<close> of
  \<^verbatim>\<open>undefined\<close> is empty, \<^verbatim>\<open>map\<close> applies a function to the value held (and is
  empty when the function yields \<^verbatim>\<open>undefined\<close>), \<^verbatim>\<open>getOrUndefined\<close> returns the
  value held or \<^verbatim>\<open>undefined\<close>.
\<close>

definition Optional_of :: "'a option \<Rightarrow> 'a option" where
  "Optional_of v = v"

definition Optional_map :: "('a \<Rightarrow> 'b option) \<Rightarrow> 'a option \<Rightarrow> 'b option" where
  "Optional_map f opt = (case opt of None \<Rightarrow> None | Some v \<Rightarrow> f v)"

definition getOrUndefined :: "'a option \<Rightarrow> 'a option" where
  "getOrUndefined opt = opt"

text \<open>
  Modelled from the spec: \<^verbatim>\<open>isPresent\<close> (../Preconditions) is not part of the
  sources. A value is present when it is neither \<^verbatim>\<open>undefined\<close> nor \<^verbatim>\<open>null\<close>; it
  is applied to an entry of the file mapping, which is a record or \<^verbatim>\<open>undefined\<close>.
\<close>

definition isPresent :: "'a option \<Rightarrow> bool" where
  "isPresent v = (v \<noteq> None)"

text \<open>
  Modelled from the spec: \<^verbatim>\<open>DatastoreMutation\<close> (./DatastoreMutation) is not part of
  the sources. A mutation exposes "two independently resolvable futures", \<^verbatim>\<open>written\<close>
  and \<^verbatim>\<open>committed\<close>. The model of a mutation object is the sequence of
  \<^verbatim>\<open>resolve\<close> calls it has received, oldest first: which future, and with what value.
\<close>

datatype future = written | committed

type_synonym datastoreMutation = "(future \<times> bool) list"

definition DefaultDatastoreMutation :: datastoreMutation where
  "DefaultDatastoreMutation = []"

definition resolve :: "future \<Rightarrow> bool \<Rightarrow> datastoreMutation \<Rightarrow> datastoreMutation" where
  "resolve fu v m = m @ [(fu, v)]"

text \<open>
  \<^verbatim>\<open>Buffer.from(data)\<close> of a string is its UTF-8 encoding; a \<open>char\<close> is a code point
  below 256, encoded in one or two bytes.
\<close>

type_synonym buffer = "8 word list"

definition utf8 :: "char \<Rightarrow> buffer" where
  "utf8 c = (let n = (of_char c :: nat)
             in if n < 128 then [of_nat n]
                else [of_nat (192 + n div 64), of_nat (128 + n mod 64)])"

definition Buffer_from :: "string \<Rightarrow> buffer" where
  "Buffer_from s = concat (map utf8 s)"

subsection \<open>Data\<close>

text \<open>
  A \<^verbatim>\<open>FileRef\<close> is addressed by its \<^verbatim>\<open>name\<close>, a string. Type annotations are not
  checked at run time, so a reference may reach the datastore without a name (\<open>None\<close>
  for the name), and the argument of a file operation may be no reference at all,
  \<^verbatim>\<open>undefined\<close> or \<^verbatim>\<open>null\<close> (\<open>None\<close> for the reference).
\<close>

record fileRef =
  name :: "string option"

record docMetaRef =
  fingerprint :: string

record docMetaFileRef = docMetaRef +
  docFile :: "fileRef option"

type_synonym backend = string

type_synonym fileMeta = "(string \<times> jsval) list"

record fileData =
  buffer :: buffer
  meta :: fileMeta

record datastoreFile =
  backend :: backend
  ref :: "fileRef option"
  url :: string
  file_meta :: fileMeta

record fileDeleted =
  path :: string
  deleted :: bool

record deleteResult =
  docMetaFile :: fileDeleted
  dataFile :: fileDeleted

text \<open>The argument \<^verbatim>\<open>data: FileHandle | Buffer | string\<close> of \<^verbatim>\<open>writeFile\<close>;
  a file handle is given by its path.\<close>

datatype fileInput = DataString string | DataBuffer buffer | DataHandle string

text \<open>
  The keys of \<^verbatim>\<open>files\<close> all contain a colon, which no property name of
  \<^verbatim>\<open>Object.prototype\<close> does (\<open>toFileRefKey_not_inherited\<close> below), so this object is
  given by its own properties alone.
\<close>

record memoryDatastore =
  docMetas :: jsobject
  files :: "(string \<times> fileData) list"

text \<open>
  The constructor leaves both dictionaries empty. The directories it also sets, and the
  methods \<^verbatim>\<open>init\<close>, \<^verbatim>\<open>stop\<close>, \<^verbatim>\<open>snapshot\<close> and
  \<^verbatim>\<open>addDocMetaSnapshotEventListener\<close>, touch neither dictionary and are left out.
\<close>

definition MemoryDatastore :: memoryDatastore where
  "MemoryDatastore = \<lparr>docMetas = \<lparr>own = [], proto = ObjectPrototype\<rparr>, files = []\<rparr>"

subsection \<open>Operations\<close>

definition contains :: "string \<Rightarrow> memoryDatastore \<Rightarrow> (error + bool) \<times> memoryDatastore" where
  "contains fp s = (Inr (hasProp fp (docMetas s)), s)"

definition delete :: "docMetaFileRef \<Rightarrow> memoryDatastore \<Rightarrow> (error + deleteResult) \<times> memoryDatastore" where
  "delete docMetaFileRef s =
     (let result =
        \<lparr>docMetaFile = \<lparr>path = ''/'' @ fingerprint docMetaFileRef @ ''.json'', deleted = False\<rparr>,
         dataFile = \<lparr>path = ''/'' @ toStr (getOrUndefined
                                  (Optional_map name (Optional_of (docFile docMetaFileRef)))),
                     deleted = False\<rparr>\<rparr>
      in case contains (fingerprint docMetaFileRef) s of
           (Inl e, s') \<Rightarrow> (Inl e, s')
         | (Inr present, s') \<Rightarrow>
             (if present
              then (Inr (result\<lparr>docMetaFile := (docMetaFile result)\<lparr>deleted := True\<rparr>,
                                dataFile := (dataFile result)\<lparr>deleted := True\<rparr>\<rparr>), s')
              else (Inr result, s')))"

text \<open>
  The key is a template literal that reads \<^verbatim>\<open>fileRef.name\<close>: reading a property of
  \<^verbatim>\<open>undefined\<close> or \<^verbatim>\<open>null\<close> throws a \<open>TypeError\<close>.
\<close>

definition toFileRefKey :: "backend \<Rightarrow> fileRef option \<Rightarrow> error + string" where
  "toFileRefKey b fileRef =
     (case fileRef of
        None \<Rightarrow> Inl TypeError
      | Some r \<Rightarrow> Inr (b @ '':'' @ toStr (name r)))"

text \<open>
  \<^verbatim>\<open>Files.readFileAsync\<close> reads the file system, which is outside the datastore: it is
  the parameter \<open>readFileAsync\<close>, from a path to the bytes of the file, \<open>None\<close> when the
  read fails. An omitted \<^verbatim>\<open>meta\<close> (\<open>None\<close>) defaults to the empty object.
\<close>

definition metaOrDefault :: "fileMeta option \<Rightarrow> fileMeta" where
  "metaOrDefault metaArg = (case metaArg of None \<Rightarrow> [] | Some m \<Rightarrow> m)"

definition toBuffer :: "(string \<Rightarrow> buffer option) \<Rightarrow> fileInput \<Rightarrow> error + buffer" where
  "toBuffer readFileAsync data =
     (case data of
        DataString str \<Rightarrow> Inr (Buffer_from str)
      | DataBuffer b \<Rightarrow> Inr b
      | DataHandle p \<Rightarrow> (case readFileAsync p of None \<Rightarrow> Inl IOError | Some b \<Rightarrow> Inr b))"

definition writeFile ::
  "(string \<Rightarrow> buffer option) \<Rightarrow> backend \<Rightarrow> fileRef option \<Rightarrow> fileInput \<Rightarrow> fileMeta option \<Rightarrow>
   memoryDatastore \<Rightarrow> (error + datastoreFile) \<times> memoryDatastore" where
  "writeFile readFileAsync b r data metaArg s =
     (let m = metaOrDefault metaArg
      in case toFileRefKey b r of
           Inl e \<Rightarrow> (Inl e, s)
         | Inr key \<Rightarrow>
             (case toBuffer readFileAsync data of
                Inl e \<Rightarrow> (Inl e, s)
              | Inr buff \<Rightarrow>
                  (Inr \<lparr>backend = b, ref = r, url = ''FIXME:none'', file_meta = m\<rparr>,
                   s\<lparr>files := AList.update key \<lparr>buffer = buff, meta = m\<rparr> (files s)\<rparr>)))"

definition getFile ::
  "backend \<Rightarrow> fileRef option \<Rightarrow> memoryDatastore \<Rightarrow>
   (error + datastoreFile option) \<times> memoryDatastore" where
  "getFile b r s =
     (case toFileRefKey b r of
        Inl e \<Rightarrow> (Inl e, s)
      | Inr key \<Rightarrow>
          (if key = [] then (Inr None, s)
           else (case map_of (files s) key of
                   None \<Rightarrow> (Inl TypeError, s)
                 | Some fd \<Rightarrow>
                     (Inr (Some \<lparr>backend = b, ref = r, url = ''FIXME:none'',
                                 file_meta = meta fd\<rparr>), s))))"

definition containsFile ::
  "backend \<Rightarrow> fileRef option \<Rightarrow> memoryDatastore \<Rightarrow> (error + bool) \<times> memoryDatastore" where
  "containsFile b r s =
     (case toFileRefKey b r of
        Inl e \<Rightarrow> (Inl e, s)
      | Inr key \<Rightarrow> (Inr (isPresent (map_of (files s) key)), s))"

definition deleteFile ::
  "backend \<Rightarrow> fileRef option \<Rightarrow> memoryDatastore \<Rightarrow> (error + unit) \<times> memoryDatastore" where
  "deleteFile b r s =
     (case toFileRefKey b r of
        Inl e \<Rightarrow> (Inl e, s)
      | Inr key \<Rightarrow> (Inr (), s\<lparr>files := AList.delete key (files s)\<rparr>))"

text \<open>\<^verbatim>\<open>getDocMeta\<close> counts the documents for a log line and reads the dictionary.\<close>

definition getDocMeta :: "string \<Rightarrow> memoryDatastore \<Rightarrow> (error + propval) \<times> memoryDatastore" where
  "getDocMeta fp s = (Inr (getProp (docMetas s) fp), s)"

text \<open>
  \<open>write_doc\<close> is the method \<^verbatim>\<open>write\<close>, whose name is a reserved word of the
  proof language. It also returns the mutation object as the call leaves it; an omitted
  mutation (\<open>None\<close>) defaults to a new one. The argument \<^verbatim>\<open>docInfo\<close> is not used.
\<close>

definition write_doc ::
  "string \<Rightarrow> jsval \<Rightarrow> 'docInfo \<Rightarrow> datastoreMutation option \<Rightarrow> memoryDatastore \<Rightarrow>
   (error + unit) \<times> memoryDatastore \<times> datastoreMutation" where
  "write_doc fp data docInfo mutationArg s =
     (let datastoreMutation =
            (case mutationArg of None \<Rightarrow> DefaultDatastoreMutation | Some m \<Rightarrow> m)
      in case assertTypeOf data ''string'' ''data'' of
           Inl e \<Rightarrow> (Inl e, s, datastoreMutation)
         | Inr _ \<Rightarrow>
             (Inr (),
              s\<lparr>docMetas := setProp fp data (docMetas s)\<rparr>,
              resolve committed True (resolve written True datastoreMutation)))"

definition getDocMetaFiles :: "memoryDatastore \<Rightarrow> (error + docMetaRef list) \<times> memoryDatastore" where
  "getDocMetaFiles s =
     (Inr (map (\<lambda>fp. \<lparr>fingerprint = fp\<rparr>) (ownKeys (own (docMetas s)))), s)"

subsection \<open>Histories of calls\<close>

text \<open>
  What "never written" and "previously written" mean: the datastore is reached from a
  new one by a sequence of calls of its methods, each leaving the datastore to the next.
  A write is called here without a mutation.
\<close>

datatype call =
    CallContains string
  | CallDelete docMetaFileRef
  | CallWriteFile backend "fileRef option" fileInput "fileMeta option"
  | CallGetFile backend "fileRef option"
  | CallContainsFile backend "fileRef option"
  | CallDeleteFile backend "fileRef option"
  | CallGetDocMeta string
  | CallWrite string jsval
  | CallGetDocMetaFiles

fun step :: "(string \<Rightarrow> buffer option) \<Rightarrow> call \<Rightarrow> memoryDatastore \<Rightarrow> memoryDatastore" where
  "step rd (CallContains fp) s = snd (contains fp s)"
| "step rd (CallDelete r) s = snd (delete r s)"
| "step rd (CallWriteFile b r data metaArg) s = snd (writeFile rd b r data metaArg s)"
| "step rd (CallGetFile b r) s = snd (getFile b r s)"
| "step rd (CallContainsFile b r) s = snd (containsFile b r s)"
| "step rd (CallDeleteFile b r) s = snd (deleteFile b r s)"
| "step rd (CallGetDocMeta fp) s = snd (getDocMeta fp s)"
| "step rd (CallWrite fp data) s = fst (snd (write_doc fp data () None s))"
| "step rd CallGetDocMetaFiles s = snd (getDocMetaFiles s)"

fun run :: "(string \<Rightarrow> buffer option) \<Rightarrow> call list \<Rightarrow> memoryDatastore \<Rightarrow> memoryDatastore" where
  "run rd [] s = s"
| "run rd (c # cs) s = run rd cs (step rd c s)"

text \<open>A call that is a write of a string payload under the fingerprint \<open>fp\<close>.\<close>

fun isWriteOf :: "string \<Rightarrow> call \<Rightarrow> bool" where
  "isWriteOf fp (CallWrite fp' data) = (fp' = fp \<and> typeof data = ''string'')"
| "isWriteOf fp c = False"

definition writtenIn :: "string \<Rightarrow> call list \<Rightarrow> bool" where
  "writtenIn fp cs = list_ex (isWriteOf fp) cs"

text \<open>The values a future of a mutation has been resolved with, oldest first.\<close>

definition resolutions :: "future \<Rightarrow> datastoreMutation \<Rightarrow> bool list" where
  "resolutions fu m = map snd (filter (\<lambda>e. fst e = fu) m)"

text \<open>A file system without any file, for the examples.\<close>

definition noFiles :: "string \<Rightarrow> buffer option" where
  "noFiles p = None"

section \<open>Properties\<close>

subsection \<open>Objects used as dictionaries\<close>

lemma getProp_setProp:
  "k \<noteq> ''__proto__'' \<Longrightarrow> getProp (setProp k v obj) k = Data v"
  by (simp add: getProp_def setProp_def update_conv')

lemma protoSetter_string: "typeof v = ''string'' \<Longrightarrow> protoSetter v obj = obj"
  by (cases v) simp_all

lemma reachesProtoAccessor_inheritedHas:
  "reachesProtoAccessor p \<Longrightarrow> inheritedHas ''__proto__'' p"
  by (cases p) (simp_all add: objectPrototypeNames_def)

lemma hasProp_setProp:
  assumes "typeof v = ''string''"
  shows "hasProp k (setProp k' v obj) = (k = k' \<or> hasProp k obj)"
proof (cases "k' = ''__proto__'' \<and> map_of (own obj) k' = None
              \<and> reachesProtoAccessor (proto obj)")
  case True
  then have "setProp k' v obj = protoSetter v obj"
    unfolding setProp_def by (rule if_P)
  then have same: "setProp k' v obj = obj"
    using assms by (simp add: protoSetter_string)
  have "inheritedHas ''__proto__'' (proto obj)"
    using True by (blast intro: reachesProtoAccessor_inheritedHas)
  then have "hasProp k' obj"
    using True unfolding hasProp_def by blast
  then show ?thesis
    unfolding same by blast
next
  case False
  then have "setProp k' v obj = obj\<lparr>own := AList.update k' v (own obj)\<rparr>"
    unfolding setProp_def by (rule if_not_P)
  then show ?thesis
    using dom_update [of k' v "own obj"] by (auto simp: hasProp_def)
qed

lemma set_ownKeys: "set (ownKeys ps) = fst ` set ps"
  by (auto simp: ownKeys_def)

subsection \<open>File keys\<close>

lemma toFileRefKey_not_inherited:
  "toFileRefKey b r = Inr key \<Longrightarrow> key \<notin> set objectPrototypeNames"
proof -
  assume "toFileRefKey b r = Inr key"
  then have "CHR '':'' \<in> set key"
    by (auto simp: toFileRefKey_def split: option.splits)
  moreover have "\<forall>n \<in> set objectPrototypeNames. CHR '':'' \<notin> set n"
    by (simp add: objectPrototypeNames_def)
  ultimately show ?thesis by blast
qed

lemma toFileRefKey_nonempty: "toFileRefKey b r = Inr key \<Longrightarrow> key \<noteq> []"
  by (auto simp: toFileRefKey_def split: option.splits)

lemma toFileRefKey_no_ref: "toFileRefKey b None = Inl TypeError"
  by (simp add: toFileRefKey_def)

lemma files_writeFile:
  "toFileRefKey b r = Inr key \<Longrightarrow> toBuffer rd data = Inr buff \<Longrightarrow>
   map_of (files (snd (writeFile rd b r data metaArg s)))
     = (map_of (files s))(key \<mapsto> \<lparr>buffer = buff, meta = metaOrDefault metaArg\<rparr>)"
  by (simp add: writeFile_def Let_def update_conv')

text \<open>The guard on the key never applies: \<^verbatim>\<open>getFile\<close> goes on to read the entry.\<close>

lemma getFile_lookup:
  "toFileRefKey b r = Inr key \<Longrightarrow>
   fst (getFile b r s) =
     (case map_of (files s) key of
        None \<Rightarrow> Inl TypeError
      | Some fd \<Rightarrow> Inr (Some \<lparr>backend = b, ref = r, url = ''FIXME:none'', file_meta = meta fd\<rparr>))"
  by (frule toFileRefKey_nonempty) (simp add: getFile_def split: option.splits)

subsection \<open>Which fingerprints a datastore contains\<close>

lemma delete_frame: "snd (delete r s) = s"
  by (simp add: delete_def contains_def Let_def)

lemma step_hasProp:
  "hasProp fp (docMetas (step rd c s)) = (hasProp fp (docMetas s) \<or> isWriteOf fp c)"
  by (cases c)
     (auto simp: contains_def delete_def writeFile_def getFile_def containsFile_def
        deleteFile_def getDocMeta_def write_doc_def getDocMetaFiles_def assertTypeOf_def
        hasProp_setProp Let_def split: sum.splits option.splits)

text \<open>
  A write assigns strings only, so the prototype of \<^verbatim>\<open>docMetas\<close> stays
  \<^verbatim>\<open>Object.prototype\<close>.
\<close>

lemma setProp_string_proto: "typeof v = ''string'' \<Longrightarrow> proto (setProp k v obj) = proto obj"
  by (simp add: setProp_def protoSetter_string)

lemma step_proto: "proto (docMetas (step rd c s)) = proto (docMetas s)"
  by (cases c)
     (auto simp: contains_def delete_def writeFile_def getFile_def containsFile_def
        deleteFile_def getDocMeta_def write_doc_def getDocMetaFiles_def assertTypeOf_def
        setProp_string_proto Let_def split: sum.splits option.splits)

lemma run_proto: "proto (docMetas (run rd cs MemoryDatastore)) = ObjectPrototype"
proof -
  have "proto (docMetas (run rd cs s)) = proto (docMetas s)" for s
    by (induction cs arbitrary: s) (simp_all add: step_proto)
  then show ?thesis
    by (simp add: MemoryDatastore_def)
qed

lemma run_hasProp:
  "hasProp fp (docMetas (run rd cs s)) = (hasProp fp (docMetas s) \<or> writtenIn fp cs)"
  by (induction cs arbitrary: s) (auto simp: writtenIn_def step_hasProp)

text \<open>
  After any history of calls on a new datastore, \<^verbatim>\<open>contains\<close> is true of the
  fingerprints under which a string was written, and of the property names of
  \<^verbatim>\<open>Object.prototype\<close>; it is false of every other fingerprint.
\<close>

lemma contains_history:
  "fst (contains fp (run rd cs MemoryDatastore))
     = Inr (writtenIn fp cs \<or> fp \<in> set objectPrototypeNames)"
  using run_hasProp [of fp rd cs MemoryDatastore]
  by (auto simp: contains_def MemoryDatastore_def hasProp_def)

lemma contains_after_write:
  "fst (contains fp (fst (snd (write_doc fp (JStr d) docInfo mutationArg s)))) = Inr True"
  by (simp add: contains_def write_doc_def assertTypeOf_def hasProp_setProp Let_def)

subsection \<open>Round trip of a document\<close>

text \<open>
  C1, as stated, holds of every fingerprint. Under the fingerprint \<open>__proto__\<close> a write
  succeeds and stores nothing: the assignment runs the setter inherited from
  \<^verbatim>\<open>Object.prototype\<close>, which ignores a string, and \<^verbatim>\<open>getDocMeta\<close> then returns
  the object \<^verbatim>\<open>Object.prototype\<close>, not the payload.
\<close>

theorem write_under_proto_not_read_back:
  "fst (write_doc ''__proto__'' (JStr ''{}'') () None MemoryDatastore) = Inr ()
   \<and> fst (getDocMeta ''__proto__''
            (fst (snd (write_doc ''__proto__'' (JStr ''{}'') () None MemoryDatastore))))
       = Inr ObjectPrototypeValue
   \<and> fst (getDocMeta ''__proto__''
            (fst (snd (write_doc ''__proto__'' (JStr ''{}'') () None MemoryDatastore))))
       \<noteq> Inr (Data (JStr ''{}''))"
  by (simp add: write_doc_def getDocMeta_def assertTypeOf_def getProp_def setProp_def
        objectPrototypeProp_def MemoryDatastore_def Let_def)

text \<open>
  C1, amended: for every fingerprint \<open>fp\<close> other than \<open>__proto__\<close> and every string
  payload \<open>d\<close>, a write of \<open>d\<close> under \<open>fp\<close> succeeds, and \<^verbatim>\<open>getDocMeta\<close> of \<open>fp\<close>
  on the datastore it leaves returns exactly \<open>d\<close>, whatever the datastore held before;
  in particular after an earlier write of another payload \<open>d0\<close> under \<open>fp\<close>: the last
  write wins.
\<close>

theorem write_getDocMeta_roundtrip:
  assumes "fp \<noteq> ''__proto__''"
  shows "fst (write_doc fp (JStr d) docInfo mutationArg s) = Inr ()
   \<and> fst (getDocMeta fp (fst (snd (write_doc fp (JStr d) docInfo mutationArg s))))
       = Inr (Data (JStr d))
   \<and> fst (getDocMeta fp (fst (snd (write_doc fp (JStr d) docInfo mutationArg'
             (fst (snd (write_doc fp (JStr d0) docInfo0 mutationArg s)))))))
       = Inr (Data (JStr d))"
  using assms
  by (simp add: write_doc_def getDocMeta_def assertTypeOf_def getProp_setProp Let_def)

theorem write_getDocMeta_roundtrip_witness:
  "''doc1'' \<noteq> ''__proto__''
   \<and> fst (getDocMeta ''doc1''
        (fst (snd (write_doc ''doc1'' (JStr ''{}'') () None MemoryDatastore))))
      = Inr (Data (JStr ''{}''))"
proof -
  have ne: "''doc1'' \<noteq> ''__proto__''" by simp
  show ?thesis
    using write_getDocMeta_roundtrip [OF ne, of "''{}''" "()" None MemoryDatastore None "''[]''" "()"] ne by simp
qed

subsection \<open>Existence after a delete\<close>

text \<open>
  C2: \<^verbatim>\<open>contains\<close> should be false after a successful delete. It is not: on a new
  datastore, after a write under \<open>doc1\<close> and a delete of \<open>doc1\<close> that reports
  \<open>deleted = True\<close> for both targets, \<^verbatim>\<open>contains\<close> of \<open>doc1\<close> is still true.
\<close>

theorem contains_after_delete_still_true: "fst (contains ''doc1''
        (snd (delete \<lparr>fingerprint = ''doc1'', docFile = None\<rparr>
           (fst (snd (write_doc ''doc1'' (JStr ''{}'') () None MemoryDatastore)))))) = Inr True
   \<and> fst (delete \<lparr>fingerprint = ''doc1'', docFile = None\<rparr>
           (fst (snd (write_doc ''doc1'' (JStr ''{}'') () None MemoryDatastore))))
     = Inr \<lparr>docMetaFile = \<lparr>path = ''/doc1.json'', deleted = True\<rparr>,
            dataFile = \<lparr>path = ''/undefined'', deleted = True\<rparr>\<rparr>"
  by (simp add: contains_def delete_def write_doc_def assertTypeOf_def MemoryDatastore_def
        hasProp_def setProp_def Let_def Optional_of_def Optional_map_def getOrUndefined_def)

subsection \<open>The mutation of a write\<close>

text \<open>
  C3: a successful write makes exactly two \<^verbatim>\<open>resolve\<close> calls on its mutation, after
  whatever the mutation had received before: first \<open>written\<close> with \<open>True\<close>, then
  \<open>committed\<close> with \<open>True\<close>. So \<open>written\<close> is resolved before \<open>committed\<close>, both with
  \<open>True\<close>, and the write resolves each of them once.
\<close>

theorem write_resolves_written_then_committed:
  assumes "fst (write_doc fp data docInfo mutationArg s) = Inr ()"
  shows "snd (snd (write_doc fp data docInfo mutationArg s))
           = (case mutationArg of None \<Rightarrow> DefaultDatastoreMutation | Some m \<Rightarrow> m)
               @ [(written, True), (committed, True)]
    \<and> resolutions written (snd (snd (write_doc fp data docInfo mutationArg s)))
           = resolutions written
               (case mutationArg of None \<Rightarrow> DefaultDatastoreMutation | Some m \<Rightarrow> m) @ [True]
    \<and> resolutions committed (snd (snd (write_doc fp data docInfo mutationArg s)))
           = resolutions committed
               (case mutationArg of None \<Rightarrow> DefaultDatastoreMutation | Some m \<Rightarrow> m) @ [True]"
  using assms
  by (auto simp: write_doc_def assertTypeOf_def resolve_def resolutions_def Let_def
        split: if_splits)

theorem write_resolves_written_then_committed_witness:
  "fst (write_doc ''doc1'' (JStr ''{}'') () (Some []) MemoryDatastore) = Inr ()
   \<and> snd (snd (write_doc ''doc1'' (JStr ''{}'') () (Some []) MemoryDatastore))
       = [(written, True), (committed, True)]
   \<and> resolutions written (snd (snd (write_doc ''doc1'' (JStr ''{}'') () (Some []) MemoryDatastore)))
       = [True]
   \<and> resolutions committed (snd (snd (write_doc ''doc1'' (JStr ''{}'') () (Some []) MemoryDatastore)))
       = [True]"
proof -
  have ok: "fst (write_doc ''doc1'' (JStr ''{}'') () (Some []) MemoryDatastore) = Inr ()"
    by (simp add: write_doc_def assertTypeOf_def Let_def)
  show ?thesis
    using write_resolves_written_then_committed [OF ok] ok
    by (simp add: resolutions_def)
qed

subsection \<open>A write of a payload that is not a string\<close>

text \<open>
  C4: a write whose payload is not a string fails with \<open>TypeMismatchError\<close> and changes
  nothing: the datastore it leaves is the one it was given (so \<^verbatim>\<open>getDocMeta\<close> and
  \<^verbatim>\<open>contains\<close> observe the state before the call, for every fingerprint), and the
  mutation has received no \<^verbatim>\<open>resolve\<close> call.
\<close>

theorem write_non_string_fails_unchanged:
  assumes "typeof data \<noteq> ''string''"
  shows "write_doc fp data docInfo mutationArg s
           = (Inl TypeMismatchError, s,
              case mutationArg of None \<Rightarrow> DefaultDatastoreMutation | Some m \<Rightarrow> m)
    \<and> getDocMeta fp' (fst (snd (write_doc fp data docInfo mutationArg s))) = getDocMeta fp' s
    \<and> contains fp' (fst (snd (write_doc fp data docInfo mutationArg s))) = contains fp' s"
  using assms by (simp add: write_doc_def assertTypeOf_def Let_def)

theorem write_non_string_fails_unchanged_witness:
  "typeof (JNum 5) \<noteq> ''string''
   \<and> write_doc ''doc1'' (JNum 5) () (Some []) MemoryDatastore
       = (Inl TypeMismatchError, MemoryDatastore, [])"
proof -
  have ty: "typeof (JNum 5) \<noteq> ''string''" by simp
  show ?thesis
    using write_non_string_fails_unchanged [OF ty, of "''doc1''" "()" "Some []" MemoryDatastore "''doc1''"]
      ty
    by simp
qed

subsection \<open>Lookups of what was never written\<close>

lemma getDocMeta_unknown:
  "\<not> hasProp fp (docMetas s) \<Longrightarrow> getDocMeta fp s = (Inr (Data JUndefined), s)"
proof -
  assume no: "\<not> hasProp fp (docMetas s)"
  then have own: "map_of (own (docMetas s)) fp = None"
    by (simp add: hasProp_def map_of_eq_None_iff)
  have "inheritedProp fp (proto (docMetas s)) = Data JUndefined"
  proof (cases "proto (docMetas s)")
    case ObjectPrototype
    with no have "fp \<notin> set objectPrototypeNames" by (simp add: hasProp_def)
    moreover from this have "fp \<noteq> ''__proto__''"
      by (auto simp: objectPrototypeNames_def)
    ultimately show ?thesis
      using ObjectPrototype by (simp add: objectPrototypeProp_def)
  next
    case NullPrototype
    then show ?thesis by simp
  next
    case (PlainPrototype ps)
    with no have "fp \<notin> set objectPrototypeNames" and "map_of ps fp = None"
      by (simp_all add: hasProp_def map_of_eq_None_iff)
    moreover from this have "fp \<noteq> ''__proto__''"
      by (auto simp: objectPrototypeNames_def)
    ultimately show ?thesis
      using PlainPrototype by (simp add: objectPrototypeProp_def)
  qed
  with own show ?thesis
    by (simp add: getDocMeta_def getProp_def)
qed

lemma getFile_unknown:
  "toFileRefKey b r = Inr key \<Longrightarrow> map_of (files s) key = None \<Longrightarrow>
   getFile b r s = (Inl TypeError, s)"
  by (frule toFileRefKey_nonempty) (simp add: getFile_def)

text \<open>
  C5: \<^verbatim>\<open>getFile\<close> of a key that was never written should return an empty optional
  without an error. On a new datastore \<^verbatim>\<open>getFile\<close> of the backend \<open>stash\<close> and the
  name \<open>x\<close> fails with a \<open>TypeError\<close>: the key \<open>stash:x\<close> is not empty, so the guard
  does not return, and the code reads \<^verbatim>\<open>meta\<close> of an entry that is
  \<^verbatim>\<open>undefined\<close>. \<^verbatim>\<open>getDocMeta\<close> of the unknown fingerprint \<open>x\<close> does return
  \<^verbatim>\<open>undefined\<close>.
\<close>

theorem getFile_unknown_raises: "getFile ''stash'' (Some \<lparr>name = Some ''x''\<rparr>) MemoryDatastore
       = (Inl TypeError, MemoryDatastore)
  \<and> toFileRefKey ''stash'' (Some \<lparr>name = Some ''x''\<rparr>) = Inr ''stash:x''
  \<and> getDocMeta ''x'' MemoryDatastore = (Inr (Data JUndefined), MemoryDatastore)"
  by (simp add: getFile_def getDocMeta_def getProp_def toFileRefKey_def MemoryDatastore_def
       objectPrototypeProp_def objectPrototypeNames_def)

subsection \<open>The result of a delete\<close>

text \<open>
  C6, as stated, has \<^verbatim>\<open>delete\<close> report \<open>deleted = False\<close> for every fingerprint that
  was never written. On a new datastore, with no call made, a delete of the
  fingerprint \<open>constructor\<close> reports \<open>deleted = True\<close> for both targets: the operator
  \<^verbatim>\<open>in\<close> finds the property that every object inherits from \<^verbatim>\<open>Object.prototype\<close>.
\<close>

theorem delete_inherited_name_reports_deleted:
  "fst (delete \<lparr>fingerprint = ''constructor'', docFile = None\<rparr> (run noFiles [] MemoryDatastore))
     = Inr \<lparr>docMetaFile = \<lparr>path = ''/constructor.json'', deleted = True\<rparr>,
            dataFile = \<lparr>path = ''/undefined'', deleted = True\<rparr>\<rparr>
   \<and> writtenIn ''constructor'' [] = False"
  by (simp add: delete_def contains_def hasProp_def MemoryDatastore_def objectPrototypeNames_def
        writtenIn_def Let_def Optional_of_def Optional_map_def getOrUndefined_def)

text \<open>
  C6, amended: on the datastore reached from a new one by any history of calls,
  \<^verbatim>\<open>delete\<close> returns a result whose two targets both have \<open>deleted\<close> true if a string
  was written under the fingerprint in the history or the fingerprint is a property
  name of \<^verbatim>\<open>Object.prototype\<close>, and both false if it was never written and is no such
  name; the path of \<open>docMetaFile\<close> is \<open>/\<close>, the fingerprint and \<open>.json\<close>.
\<close>

theorem delete_result: "fst (delete r (run rd cs MemoryDatastore))
   = Inr \<lparr>docMetaFile = \<lparr>path = ''/'' @ fingerprint r @ ''.json'',
                          deleted = (writtenIn (fingerprint r) cs
                                     \<or> fingerprint r \<in> set objectPrototypeNames)\<rparr>,
          dataFile = \<lparr>path = ''/'' @ toStr (Option.bind (docFile r) name),
                       deleted = (writtenIn (fingerprint r) cs
                                  \<or> fingerprint r \<in> set objectPrototypeNames)\<rparr>\<rparr>"
  using contains_history [of "fingerprint r" rd cs]
  by (cases "docFile r")
     (auto simp: delete_def Let_def Optional_of_def Optional_map_def getOrUndefined_def
        split: prod.splits sum.splits)

subsection \<open>Files under different backends\<close>

text \<open>
  C7, as stated, has \<^verbatim>\<open>getFile\<close> return the content stored under its backend. The
  descriptor that \<^verbatim>\<open>getFile\<close> returns holds no content: with \<open>[2]\<close> written under
  the backend \<open>B\<close>, \<^verbatim>\<open>getFile\<close> of the backend \<open>A\<close> returns the same descriptor
  whether \<open>[1]\<close> or \<open>[3]\<close> was written under \<open>A\<close>.
\<close>

theorem getFile_returns_no_content:
  "fst (getFile ''A'' (Some \<lparr>name = Some ''x''\<rparr>)
          (snd (writeFile noFiles ''B'' (Some \<lparr>name = Some ''x''\<rparr>) (DataBuffer [2]) None
             (snd (writeFile noFiles ''A'' (Some \<lparr>name = Some ''x''\<rparr>) (DataBuffer [1]) None
                MemoryDatastore)))))
   = fst (getFile ''A'' (Some \<lparr>name = Some ''x''\<rparr>)
          (snd (writeFile noFiles ''B'' (Some \<lparr>name = Some ''x''\<rparr>) (DataBuffer [2]) None
             (snd (writeFile noFiles ''A'' (Some \<lparr>name = Some ''x''\<rparr>) (DataBuffer [3]) None
                MemoryDatastore)))))
   \<and> fst (getFile ''A'' (Some \<lparr>name = Some ''x''\<rparr>)
          (snd (writeFile noFiles ''B'' (Some \<lparr>name = Some ''x''\<rparr>) (DataBuffer [2]) None
             (snd (writeFile noFiles ''A'' (Some \<lparr>name = Some ''x''\<rparr>) (DataBuffer [1]) None
                MemoryDatastore)))))
     = Inr (Some \<lparr>backend = ''A'', ref = Some \<lparr>name = Some ''x''\<rparr>, url = ''FIXME:none'',
                  file_meta = []\<rparr>)"
  by (simp add: getFile_def writeFile_def toBuffer_def toFileRefKey_def metaOrDefault_def
        MemoryDatastore_def Let_def)

text \<open>
  C7, amended: for two distinct backends \<open>a\<close> and \<open>b\<close> and one name \<open>x\<close>, the keys
  differ; after \<^verbatim>\<open>writeFile\<close> under \<open>a\<close> and then under \<open>b\<close> the file mapping holds
  under each key the content and the metadata written under its own backend, and
  \<^verbatim>\<open>getFile\<close> under each backend returns a descriptor with that backend, the
  reference and the metadata written under that backend (the descriptor carries no
  content); a \<^verbatim>\<open>writeFile\<close> under \<open>b\<close> leaves the entry under \<open>a\<close>, and what
  \<^verbatim>\<open>getFile\<close> returns for it, unchanged.
\<close>

theorem writeFile_backends_isolated:
  assumes "a \<noteq> b" and "toBuffer rd dataA = Inr buffA" and "toBuffer rd dataB = Inr buffB"
  shows "toFileRefKey a (Some \<lparr>name = Some x\<rparr>) = Inr (a @ '':'' @ x)
    \<and> toFileRefKey b (Some \<lparr>name = Some x\<rparr>) = Inr (b @ '':'' @ x)
    \<and> a @ '':'' @ x \<noteq> b @ '':'' @ x
    \<and> map_of (files (snd (writeFile rd b (Some \<lparr>name = Some x\<rparr>) dataB metaB
                 (snd (writeFile rd a (Some \<lparr>name = Some x\<rparr>) dataA metaA s)))))
         (a @ '':'' @ x) = Some \<lparr>buffer = buffA, meta = metaOrDefault metaA\<rparr>
    \<and> map_of (files (snd (writeFile rd b (Some \<lparr>name = Some x\<rparr>) dataB metaB
                 (snd (writeFile rd a (Some \<lparr>name = Some x\<rparr>) dataA metaA s)))))
         (b @ '':'' @ x) = Some \<lparr>buffer = buffB, meta = metaOrDefault metaB\<rparr>
    \<and> (\<exists>df. fst (getFile a (Some \<lparr>name = Some x\<rparr>)
                 (snd (writeFile rd b (Some \<lparr>name = Some x\<rparr>) dataB metaB
                    (snd (writeFile rd a (Some \<lparr>name = Some x\<rparr>) dataA metaA s)))))
               = Inr (Some df)
             \<and> backend df = a \<and> ref df = Some \<lparr>name = Some x\<rparr>
             \<and> file_meta df = metaOrDefault metaA)
    \<and> (\<exists>df. fst (getFile b (Some \<lparr>name = Some x\<rparr>)
                 (snd (writeFile rd b (Some \<lparr>name = Some x\<rparr>) dataB metaB
                    (snd (writeFile rd a (Some \<lparr>name = Some x\<rparr>) dataA metaA s)))))
               = Inr (Some df)
             \<and> backend df = b \<and> ref df = Some \<lparr>name = Some x\<rparr>
             \<and> file_meta df = metaOrDefault metaB)
    \<and> map_of (files (snd (writeFile rd b (Some \<lparr>name = Some x\<rparr>) dataB metaB s)))
          (a @ '':'' @ x) = map_of (files s) (a @ '':'' @ x)
    \<and> fst (getFile a (Some \<lparr>name = Some x\<rparr>)
             (snd (writeFile rd b (Some \<lparr>name = Some x\<rparr>) dataB metaB s)))
        = fst (getFile a (Some \<lparr>name = Some x\<rparr>) s)"
proof -
  have ka: "toFileRefKey a (Some \<lparr>name = Some x\<rparr>) = Inr (a @ '':'' @ x)"
    and kb: "toFileRefKey b (Some \<lparr>name = Some x\<rparr>) = Inr (b @ '':'' @ x)"
    by (simp_all add: toFileRefKey_def)
  have ne: "a @ '':'' @ x \<noteq> b @ '':'' @ x"
    using assms(1) by simp
  note wa = files_writeFile [OF ka assms(2)]
  note wb = files_writeFile [OF kb assms(3)]
  show ?thesis
    using ne by (simp add: ka kb wa wb getFile_lookup [OF ka] getFile_lookup [OF kb])
qed

theorem writeFile_backends_isolated_witness:
  "''A'' \<noteq> ''B'' \<and> toBuffer noFiles (DataBuffer [1]) = Inr [1]
   \<and> toBuffer noFiles (DataString ''hi'') = Inr [104, 105]
   \<and> map_of (files (snd (writeFile noFiles ''B'' (Some \<lparr>name = Some ''x''\<rparr>) (DataString ''hi'')
                 (Some [(''k'', JNum 2)])
                 (snd (writeFile noFiles ''A'' (Some \<lparr>name = Some ''x''\<rparr>) (DataBuffer [1]) None
                    MemoryDatastore)))))
         ''A:x'' = Some \<lparr>buffer = [1], meta = []\<rparr>
   \<and> map_of (files (snd (writeFile noFiles ''B'' (Some \<lparr>name = Some ''x''\<rparr>) (DataString ''hi'')
                 (Some [(''k'', JNum 2)])
                 (snd (writeFile noFiles ''A'' (Some \<lparr>name = Some ''x''\<rparr>) (DataBuffer [1]) None
                    MemoryDatastore)))))
         ''B:x'' = Some \<lparr>buffer = [104, 105], meta = [(''k'', JNum 2)]\<rparr>"
proof -
  have ne: "''A'' \<noteq> ''B''" by simp
  have ba: "toBuffer noFiles (DataBuffer [1]) = Inr [1]" by (simp add: toBuffer_def)
  have bb: "toBuffer noFiles (DataString ''hi'') = Inr [104, 105]"
    by (simp add: toBuffer_def Buffer_from_def utf8_def Let_def)
  show ?thesis
    using writeFile_backends_isolated [OF ne ba bb, of "''x''" "Some [(''k'', JNum 2)]" None MemoryDatastore] ne ba bb
    by (simp add: metaOrDefault_def)
qed

subsection \<open>File keys of malformed references\<close>



subsection \<open>What a delete changes\<close>

text \<open>
  C9: \<^verbatim>\<open>delete\<close> leaves the datastore as it was, both the document mapping and the
  file mapping: \<^verbatim>\<open>getDocMeta\<close> and \<^verbatim>\<open>getDocMetaFiles\<close> return after the call
  what they returned before. So a record stored under the fingerprint, if there is
  one, is still returned by \<^verbatim>\<open>getDocMeta\<close> after the delete and the fingerprint is
  still listed by \<^verbatim>\<open>getDocMetaFiles\<close>; in particular the payload of a preceding write
  under a fingerprint other than \<open>__proto__\<close>, under which a write stores no record.
\<close>

theorem delete_leaves_datastore_unchanged:
  "snd (delete r s) = s
   \<and> docMetas (snd (delete r s)) = docMetas s
   \<and> files (snd (delete r s)) = files s
   \<and> getDocMeta fp (snd (delete r s)) = getDocMeta fp s
   \<and> getDocMetaFiles (snd (delete r s)) = getDocMetaFiles s
   \<and> (map_of (own (docMetas s)) (fingerprint r) = Some v \<longrightarrow>
        fst (getDocMeta (fingerprint r) (snd (delete r s))) = Inr (Data v)
        \<and> (\<exists>refs. fst (getDocMetaFiles (snd (delete r s))) = Inr refs
               \<and> \<lparr>fingerprint = fingerprint r\<rparr> \<in> set refs))
   \<and> (fingerprint r \<noteq> ''__proto__'' \<longrightarrow>
        fst (getDocMeta (fingerprint r)
          (snd (delete r (fst (snd (write_doc (fingerprint r) (JStr d) docInfo mutationArg s))))))
        = Inr (Data (JStr d))
      \<and> (\<exists>refs. fst (getDocMetaFiles
          (snd (delete r (fst (snd (write_doc (fingerprint r) (JStr d) docInfo mutationArg s))))))
            = Inr refs \<and> \<lparr>fingerprint = fingerprint r\<rparr> \<in> set refs))"
proof -
  have frame: "snd (delete r s') = s'" for s'
    by (rule delete_frame)
  have stored: "fst (getDocMeta (fingerprint r) s') = Inr (Data v')
        \<and> fingerprint r \<in> fst ` set (own (docMetas s'))"
    if "map_of (own (docMetas s')) (fingerprint r) = Some v'" for s' v'
    using that by (auto simp: getDocMeta_def getProp_def dest: map_of_SomeD intro: rev_image_eqI)
  have written: "map_of (own (docMetas
            (fst (snd (write_doc (fingerprint r) (JStr d) docInfo mutationArg s)))))
          (fingerprint r) = Some (JStr d)"
    if ne: "fingerprint r \<noteq> ''__proto__''"
    using ne by (simp add: write_doc_def assertTypeOf_def setProp_def Let_def update_conv')
  show ?thesis
    using stored [of s v] stored [OF written]
    by (simp add: frame getDocMetaFiles_def set_ownKeys image_iff)
qed

theorem delete_leaves_datastore_unchanged_witness:
  "''doc1'' \<noteq> ''__proto__''
   \<and> map_of (own (docMetas (fst (snd (write_doc ''doc1'' (JStr ''{}'') () None MemoryDatastore)))))
        ''doc1'' = Some (JStr ''{}'')
   \<and> fst (getDocMeta ''doc1''
          (snd (delete \<lparr>fingerprint = ''doc1'', docFile = None\<rparr>
             (fst (snd (write_doc ''doc1'' (JStr ''{}'') () None MemoryDatastore))))))
        = Inr (Data (JStr ''{}''))
   \<and> fst (getDocMeta ''doc1''
          (snd (delete \<lparr>fingerprint = ''doc1'', docFile = None\<rparr>
             (fst (snd (write_doc ''doc1'' (JStr ''[]'') () None
                (fst (snd (write_doc ''doc1'' (JStr ''{}'') () None MemoryDatastore)))))))))
        = Inr (Data (JStr ''[]''))"
proof -
  have ne: "''doc1'' \<noteq> ''__proto__''" by simp
  have st: "map_of (own (docMetas (fst (snd (write_doc ''doc1'' (JStr ''{}'') () None
              MemoryDatastore))))) ''doc1'' = Some (JStr ''{}'')"
    by (simp add: write_doc_def assertTypeOf_def setProp_def MemoryDatastore_def Let_def)
  show ?thesis
    using delete_leaves_datastore_unchanged
        [of "\<lparr>fingerprint = ''doc1'', docFile = None\<rparr>"
            "fst (snd (write_doc ''doc1'' (JStr ''{}'') () None MemoryDatastore))"
            "''doc1''" "JStr ''{}''" "''[]''" "()" None] ne st
    by (simp add: delete_frame)
qed

subsection \<open>The path of the data file\<close>

text \<open>
  C10: for a \<^verbatim>\<open>DocMetaFileRef\<close> without a \<^verbatim>\<open>docFile\<close>, \<^verbatim>\<open>delete\<close> returns a
  result whose \<open>dataFile\<close> has the path \<open>/undefined\<close>.
\<close>

theorem delete_without_docFile_path: "\<exists>res. fst (delete (r\<lparr>docFile := None\<rparr>) s) = Inr res \<and> path (dataFile res) = ''/undefined''"
  by (simp add: delete_def contains_def Let_def Optional_of_def Optional_map_def
        getOrUndefined_def)

end
